theory Spec2Isabelle
  imports Main "HOL-Library.Word"
begin

section \<open>Text primitives used by the backend language service\<close>

text \<open>
  JavaScript strings are modelled as HOL strings, a character standing for a code unit
  below 256. The character classes below are the classes the regular expressions of the
  source use (\<^verbatim>\<open>\w\<close>, \<^verbatim>\<open>\s\<close>) on these code units: white space is
  the space, the controls 9 to 13 and the no-break space 160. Case conversion maps the
  26 ASCII letters and leaves every other character alone.
\<close>

definition charCode :: "char \<Rightarrow> nat" where
  "charCode c = of_char c"

definition is_lower :: "char \<Rightarrow> bool" where
  "is_lower c \<longleftrightarrow> 97 \<le> charCode c \<and> charCode c \<le> 122"

definition is_upper :: "char \<Rightarrow> bool" where
  "is_upper c \<longleftrightarrow> 65 \<le> charCode c \<and> charCode c \<le> 90"

definition is_word_char :: "char \<Rightarrow> bool" where
  "is_word_char c \<longleftrightarrow>
     is_lower c \<or> is_upper c \<or> (48 \<le> charCode c \<and> charCode c \<le> 57) \<or> c = CHR ''_''"

definition is_space :: "char \<Rightarrow> bool" where
  "is_space c \<longleftrightarrow>
     c = CHR '' '' \<or> (9 \<le> charCode c \<and> charCode c \<le> 13) \<or> charCode c = 160"

definition toUpperCase_char :: "char \<Rightarrow> char" where
  "toUpperCase_char c =
     (if is_lower c then char_of (charCode c - 32) else c)"

definition toLowerCase_char :: "char \<Rightarrow> char" where
  "toLowerCase_char c =
     (if is_upper c then char_of (charCode c + 32) else c)"

definition toLowerCase :: "string \<Rightarrow> string" where
  "toLowerCase s = map toLowerCase_char s"

text \<open>\<^verbatim>\<open>String.prototype.trim\<close>: whitespace is removed at both ends.\<close>

definition trim :: "string \<Rightarrow> string" where
  "trim s = rev (dropWhile is_space (rev (dropWhile is_space s)))"

text \<open>\<^verbatim>\<open>s.includes(sub)\<close>: \<open>sub\<close> occurs in \<open>s\<close> as a contiguous run.\<close>

fun str_includes :: "string \<Rightarrow> string \<Rightarrow> bool" where
  "str_includes [] sub = (sub = [])"
| "str_includes (c # cs) sub = (take (length sub) (c # cs) = sub \<or> str_includes cs sub)"

text \<open>\<^verbatim>\<open>parts.join(' ')\<close>.\<close>

fun join_space :: "string list \<Rightarrow> string" where
  "join_space [] = []"
| "join_space [x] = x"
| "join_space (x # y # ys) = x @ '' '' @ join_space (y # ys)"

text \<open>
  \<^verbatim>\<open>s.replace(/\bi\b/g, 'I')\<close>. A match is a single letter \<open>i\<close> with a word
  boundary on both sides; the boundaries are read off the unchanged subject string, so
  the scan carries whether the previous character of the subject was a word character.
\<close>

fun replace_i :: "bool \<Rightarrow> string \<Rightarrow> string" where
  "replace_i prev_word [] = []"
| "replace_i prev_word (c # cs) =
     (if c = CHR ''i'' \<and> \<not> prev_word \<and> (case cs of [] \<Rightarrow> True | d # _ \<Rightarrow> \<not> is_word_char d)
      then CHR ''I'' else c) # replace_i (is_word_char c) cs"

text \<open>\<^verbatim>\<open>s.replace(/\s+/g, ' ')\<close>: every maximal run of whitespace becomes one space.\<close>

function replace_spaces :: "string \<Rightarrow> string" where
  "replace_spaces [] = []"
| "replace_spaces (c # cs) =
     (if is_space c then CHR '' '' # replace_spaces (dropWhile is_space cs)
      else c # replace_spaces cs)"
  by pat_completeness auto
termination
  by (relation "measure length") (auto simp: le_imp_less_Suc length_dropWhile_le)

text \<open>\<^verbatim>\<open>/[.!?]$/.test(s)\<close>: the last character is a sentence terminator.\<close>

definition ends_with_terminator :: "string \<Rightarrow> bool" where
  "ends_with_terminator s \<longleftrightarrow> s \<noteq> [] \<and> last s \<in> {CHR ''.'', CHR ''!'', CHR ''?''}"

section \<open>The local rule-based corrector\<close>

record correction =
  correctedText :: string
  explanation :: string

definition simpleTextCorrection :: "string \<Rightarrow> correction" where
  \<open>simpleTextCorrection text =
     (let corrected1 = replace_i False text;
          explanations1 =
            (if text \<noteq> corrected1 then [''Capitalized "I" when referring to yourself.''] else []);
          corrected2 = replace_spaces corrected1;
          explanations2 =
            (if corrected1 \<noteq> corrected2 then explanations1 @ [''Removed extra spaces.'']
             else explanations1);
          punct = (corrected2 \<noteq> [] \<and> \<not> ends_with_terminator (trim corrected2));
          corrected3 = (if punct then trim corrected2 @ ''.'' else corrected2);
          explanations3 =
            (if punct then explanations2 @ [''Added period at the end.''] else explanations2);
          corrected4 =
            (case corrected3 of [] \<Rightarrow> [] | c # cs \<Rightarrow> toUpperCase_char c # cs)
      in \<lparr> correctedText = corrected4,
           explanation =
             (if explanations3 \<noteq> [] then join_space explanations3
              else ''No obvious errors found. Great job!'') \<rparr>)\<close>

section \<open>The language-model service\<close>

text \<open>
  A JavaScript value used as a condition: \<^verbatim>\<open>undefined\<close>, \<^verbatim>\<open>null\<close> and the empty
  string are falsy. \<open>or_else a b\<close> is \<^verbatim>\<open>a || b\<close> for an optional string \<open>a\<close>.
\<close>

definition truthy :: "string option \<Rightarrow> bool" where
  "truthy v = (case v of None \<Rightarrow> False | Some x \<Rightarrow> x \<noteq> [])"

definition or_else :: "string option \<Rightarrow> string \<Rightarrow> string" where
  "or_else v d = (case v of None \<Rightarrow> d | Some x \<Rightarrow> (if x \<noteq> [] then x else d))"

text \<open>
  The remote model is outside the program. What a call to
  \<^verbatim>\<open>openai.chat.completions.create\<close> does is an input of the model: it resolves with
  the content of the first choice (\<open>None\<close> for \<^verbatim>\<open>null\<close>), or it rejects with an
  error object of which the code reads \<^verbatim>\<open>code\<close>, \<^verbatim>\<open>status\<close> and \<^verbatim>\<open>message\<close>.
\<close>

record api_error =
  err_code :: "string option"
  err_status :: "int option"
  err_message :: "string option"

datatype remote_result = Resolved "string option" | Rejected api_error

text \<open>
  One call of a service function: the environment variable, the two readings of the
  clock (on entry, and in the \<^verbatim>\<open>catch\<close> block) and the outcome of the remote call.
\<close>

record call_env =
  OPENAI_API_KEY :: "string option"
  now_entry :: int
  now_catch :: int
  completion :: remote_result

text \<open>The module-scoped variables of the service.\<close>

record llm_state =
  quotaExceeded :: bool
  lastQuotaErrorTime :: int
  responseQuotaExceeded :: bool
  lastResponseQuotaErrorTime :: int

definition initial_llm_state :: llm_state where
  "initial_llm_state =
     \<lparr> quotaExceeded = False, lastQuotaErrorTime = 0,
       responseQuotaExceeded = False, lastResponseQuotaErrorTime = 0 \<rparr>"

definition QUOTA_ERROR_COOLDOWN :: int where
  "QUOTA_ERROR_COOLDOWN = 5 * 60 * 1000"

definition is_quota_error :: "api_error \<Rightarrow> bool" where
  "is_quota_error e \<longleftrightarrow> err_code e = Some ''insufficient_quota'' \<or> err_status e = Some 429"

text \<open>
  The object \<^verbatim>\<open>JSON.parse\<close> returns, as far as the code reads it. The parser is a
  parameter of \<open>correctText\<close>; \<open>None\<close> stands for a parse that throws.
\<close>

record json_result =
  corrected :: "string option"
  json_explanation :: "string option"

text \<open>
  Every service function returns its value, the new module state, and whether the remote
  model was called.
\<close>

definition correctText ::
  "(string \<Rightarrow> json_result option) \<Rightarrow> call_env \<Rightarrow> llm_state \<Rightarrow> string
     \<Rightarrow> correction \<times> llm_state \<times> bool" where
  "correctText JSON_parse env st text =
     (let timeSinceLastError = now_entry env - lastQuotaErrorTime st in
      if quotaExceeded st \<and> timeSinceLastError < QUOTA_ERROR_COOLDOWN
      then (simpleTextCorrection text, st, False)
      else
        let st1 = (if quotaExceeded st \<and> timeSinceLastError \<ge> QUOTA_ERROR_COOLDOWN
                   then st\<lparr>quotaExceeded := False\<rparr> else st) in
        if truthy (OPENAI_API_KEY env) then
          (case completion env of
             Resolved content \<Rightarrow>
               (case JSON_parse (or_else content ''{}'') of
                  Some result \<Rightarrow>
                    (\<lparr> correctedText = or_else (corrected result) text,
                       explanation = or_else (json_explanation result) ''No errors found.'' \<rparr>,
                     st1\<lparr>quotaExceeded := False\<rparr>, True)
                | None \<Rightarrow> (simpleTextCorrection text, st1, True))
           | Rejected e \<Rightarrow>
               (simpleTextCorrection text,
                (if is_quota_error e
                 then st1\<lparr>quotaExceeded := True, lastQuotaErrorTime := now_catch env\<rparr>
                 else st1),
                True))
        else (simpleTextCorrection text, st1, False))"

text \<open>
  The keyword-triggered canned responses: the last part of \<^verbatim>\<open>generateResponse\<close>, from
  \<^verbatim>\<open>const lowerText = userText.toLowerCase()\<close> on.
\<close>

definition simple_response :: "string \<Rightarrow> string" where
  "simple_response userText =
     (let lowerText = toLowerCase userText in
      if str_includes lowerText ''hello'' \<or> str_includes lowerText ''hi''
           \<or> str_includes lowerText ''hey''
      then ''Hello! How are you today?''
      else if str_includes lowerText ''how are you''
      then ''I'm doing great, thank you for asking! How about you?''
      else if str_includes lowerText ''thank you'' \<or> str_includes lowerText ''thanks''
      then ''You're welcome! Keep practicing!''
      else if str_includes lowerText ''goodbye'' \<or> str_includes lowerText ''bye''
      then ''Goodbye! It was nice talking with you!''
      else ''That's interesting! Can you tell me more about that?'')"

definition generateResponse ::
  "call_env \<Rightarrow> llm_state \<Rightarrow> string \<Rightarrow> string \<times> llm_state \<times> bool" where
  "generateResponse env st userText =
     (let timeSinceLastError = now_entry env - lastResponseQuotaErrorTime st in
      if responseQuotaExceeded st \<and> timeSinceLastError < QUOTA_ERROR_COOLDOWN
      then (simple_response userText, st, False)
      else
        let st1 = (if responseQuotaExceeded st \<and> timeSinceLastError \<ge> QUOTA_ERROR_COOLDOWN
                   then st\<lparr>responseQuotaExceeded := False\<rparr> else st) in
        if truthy (OPENAI_API_KEY env) then
          (case completion env of
             Resolved content \<Rightarrow>
               (or_else content ''I'm here to help you practice English!'',
                st1\<lparr>responseQuotaExceeded := False\<rparr>, True)
           | Rejected e \<Rightarrow>
               (simple_response userText,
                (if is_quota_error e
                 then st1\<lparr>responseQuotaExceeded := True,
                          lastResponseQuotaErrorTime := now_catch env\<rparr>
                 else st1),
                True))
        else (simple_response userText, st1, False))"

section \<open>The message pipeline and its route\<close>

record message_response = correction +
  transcription :: string
  aiResponseText :: string
  aiResponseAudio :: string

text \<open>
  \<^verbatim>\<open>processTextMessage\<close> awaits the two service functions in turn. A rejected promise
  would be the \<open>Inl\<close> of the result, which is what the route's \<^verbatim>\<open>catch\<close> block
  handles; neither awaited function rejects, so the result is always an \<open>Inr\<close>. The two
  booleans tell which of the two steps called the remote model.
\<close>

definition processTextMessage ::
  "(string \<Rightarrow> json_result option) \<Rightarrow> call_env \<Rightarrow> call_env \<Rightarrow> llm_state \<Rightarrow> string
     \<Rightarrow> (api_error + message_response) \<times> llm_state \<times> bool \<times> bool" where
  "processTextMessage JSON_parse env1 env2 st text =
     (case correctText JSON_parse env1 st text of
        (c, st1, called1) \<Rightarrow>
          (case generateResponse env2 st1 text of
             (reply, st2, called2) \<Rightarrow>
               (Inr \<lparr> correctedText = correctedText c, explanation = explanation c,
                      transcription = text, aiResponseText = reply, aiResponseAudio = [] \<rparr>,
                st2, called1, called2)))"

text \<open>The field \<^verbatim>\<open>text\<close> of the request body.\<close>

datatype body_text = Missing | NonString | Text string

datatype response_body = ErrorBody string | ResultBody message_response

record http_response =
  status :: nat
  body :: response_body

text \<open>The status the \<^verbatim>\<open>catch\<close> block of the route picks from \<^verbatim>\<open>error?.message\<close>.\<close>

definition error_status :: "string option \<Rightarrow> nat" where
  "error_status msg =
     (case msg of
        None \<Rightarrow> 500
      | Some m \<Rightarrow>
          (if str_includes m ''quota'' \<or> str_includes m ''Too many requests'' then 429
           else if str_includes m ''API key'' \<or> str_includes m ''invalid'' then 401
           else if str_includes m ''Invalid request'' then 400
           else 500))"

definition post_message ::
  "(string \<Rightarrow> json_result option) \<Rightarrow> call_env \<Rightarrow> call_env \<Rightarrow> llm_state \<Rightarrow> body_text
     \<Rightarrow> http_response \<times> llm_state" where
  "post_message JSON_parse env1 env2 st req_text =
     (let bad_request =
            (\<lparr> status = 400, body = ErrorBody ''Text is required and cannot be empty.'' \<rparr>, st)
      in case req_text of
           Missing \<Rightarrow> bad_request
         | NonString \<Rightarrow> bad_request
         | Text t \<Rightarrow>
             (if t = [] \<or> length (trim t) = 0 then bad_request
              else
                (case processTextMessage JSON_parse env1 env2 st (trim t) of
                   (Inr result, st', _) \<Rightarrow> (\<lparr> status = 200, body = ResultBody result \<rparr>, st')
                 | (Inl err, st', _) \<Rightarrow>
                     (\<lparr> status = error_status (err_message err),
                        body = ErrorBody (or_else (err_message err) ''Failed to process message.'') \<rparr>,
                      st'))))"

section \<open>Audio capture\<close>

text \<open>
  A blob is its bytes. The state of the recorder hook: the React state \<open>isRecording\<close>,
  the three refs, and whether the tracks of the microphone stream are live.
\<close>

type_synonym blob = "8 word list"

record audio_recorder =
  isRecording :: bool
  mediaRecorderRef :: bool
  audioChunksRef :: "blob list"
  recordingStartTimeRef :: int
  tracks_live :: bool

datatype media_error = NotAllowedError | NotFoundError | NotSupportedError

text \<open>
  \<^verbatim>\<open>startRecording\<close>: \<open>granted\<close> is what \<^verbatim>\<open>getUserMedia\<close> does, \<open>now\<close> the clock.
  \<open>mediaRecorderRef\<close> is true when the ref holds a recorder.
\<close>

definition startRecording ::
  "media_error option \<Rightarrow> int \<Rightarrow> audio_recorder \<Rightarrow> media_error + audio_recorder" where
  "startRecording granted now st =
     (case granted of
        Some e \<Rightarrow> Inl e
      | None \<Rightarrow>
          Inr (st\<lparr> audioChunksRef := [], recordingStartTimeRef := now,
                   mediaRecorderRef := True, isRecording := True, tracks_live := True \<rparr>))"

definition ondataavailable :: "blob \<Rightarrow> audio_recorder \<Rightarrow> audio_recorder" where
  "ondataavailable data st =
     (if length data > 0 then st\<lparr> audioChunksRef := audioChunksRef st @ [data] \<rparr> else st)"

definition MIN_RECORDING_DURATION :: int where
  "MIN_RECORDING_DURATION = 500"

text \<open>
  \<^verbatim>\<open>stopRecording\<close>: \<open>now\<close> is the clock at the call. Stopping the recorder delivers the
  data not yet handed over (\<open>pending\<close>) to \<^verbatim>\<open>ondataavailable\<close> and then runs the
  \<^verbatim>\<open>onstop\<close> handler, whose argument to \<^verbatim>\<open>resolve\<close> is the first component of the result.
\<close>

definition stopRecording ::
  "int \<Rightarrow> blob \<Rightarrow> audio_recorder \<Rightarrow> blob option \<times> audio_recorder" where
  "stopRecording now pending st =
     (if \<not> mediaRecorderRef st then (None, st)
      else
        let recordingDuration = now - recordingStartTimeRef st;
            st1 = ondataavailable pending st;
            audioBlob = concat (audioChunksRef st1);
            st2 = st1\<lparr> tracks_live := False, mediaRecorderRef := False, isRecording := False \<rparr>
        in if recordingDuration < MIN_RECORDING_DURATION then (None, st2)
           else if length audioBlob < 1024 then (None, st2)
           else (Some audioBlob, st2))"

section \<open>Speech recognition\<close>

text \<open>
  The state of the recognition hook: its React state, its two refs, the calls it has
  made to the callbacks \<^verbatim>\<open>onResult\<close> and \<^verbatim>\<open>onError\<close> of its caller, oldest first,
  and whether the engine is running (started, and neither stopped nor aborted since).
\<close>

record recognition =
  isListening :: bool
  transcript :: string
  error :: "string option"
  shouldRestartRef :: bool
  noSpeechErrorCountRef :: nat
  onResult_calls :: "(string \<times> bool) list"
  onError_calls :: "string list"
  engine_active :: bool

record speech_result =
  alternative :: string
  isFinal :: bool

record result_event =
  resultIndex :: nat
  results :: "speech_result list"

text \<open>
  The loop of \<^verbatim>\<open>onresult\<close> over the results from \<open>resultIndex\<close> on; the accumulator
  is the pair \<open>(interimTranscript, finalTranscript)\<close>.
\<close>

fun collect_results :: "speech_result list \<Rightarrow> string \<times> string \<Rightarrow> string \<times> string" where
  "collect_results [] acc = acc"
| "collect_results (r # rs) (interimTranscript, finalTranscript) =
     collect_results rs
       (if isFinal r then (interimTranscript, finalTranscript @ alternative r @ '' '')
        else (interimTranscript @ alternative r, finalTranscript))"

definition onresult :: "result_event \<Rightarrow> recognition \<Rightarrow> recognition" where
  "onresult event st =
     (case collect_results (drop (resultIndex event) (results event)) ([], []) of
        (interimTranscript, finalTranscript) \<Rightarrow>
          let fullTranscript = (if finalTranscript \<noteq> [] then finalTranscript else interimTranscript);
              trimmedTranscript = trim fullTranscript
          in st\<lparr> noSpeechErrorCountRef := 0,
                 transcript := trimmedTranscript,
                 onResult_calls :=
                   onResult_calls st @ [(trimmedTranscript, length finalTranscript > 0)] \<rparr>)"



text \<open>
  The handler calls the callback \<^verbatim>\<open>onError\<close> of its caller, which runs before the
  handler returns and can act on the hook. The callback is a parameter: it gets the
  message and the state and returns the state; a caller without a callback is
  \<open>no_callback\<close>.
\<close>

type_synonym error_callback = "string \<Rightarrow> recognition \<Rightarrow> recognition"

definition no_callback :: error_callback where
  "no_callback errorMessage st = st"

text \<open>The part of \<^verbatim>\<open>onerror\<close> after the \<^verbatim>\<open>switch\<close>.\<close>

definition report_and_stop ::
  "error_callback \<Rightarrow> string \<Rightarrow> string \<Rightarrow> recognition \<Rightarrow> recognition" where
  "report_and_stop onError kind errorMessage st =
     (let st1 = (if kind \<noteq> ''no-speech'' then st\<lparr> noSpeechErrorCountRef := 0 \<rparr> else st)
      in onError errorMessage
           (st1\<lparr> error := Some errorMessage, isListening := False,
                 onError_calls := onError_calls st1 @ [errorMessage] \<rparr>))"

text \<open>\<^verbatim>\<open>onerror\<close>; \<open>continuous\<close> is the option of the hook, \<open>kind\<close> is \<^verbatim>\<open>event.error\<close>.\<close>

definition onerror :: "error_callback \<Rightarrow> bool \<Rightarrow> string \<Rightarrow> recognition \<Rightarrow> recognition" where
  "onerror onError continuous kind st =
     (if kind = ''no-speech'' then
        (if continuous then
           let st1 = st\<lparr> noSpeechErrorCountRef := noSpeechErrorCountRef st + 1 \<rparr> in
           if noSpeechErrorCountRef st1 < 5 then st1
           else
             let errorMessage = ''No speech detected multiple times. Please speak clearly.''
             in onError errorMessage
                  (st1\<lparr> error := Some errorMessage,
                        onError_calls := onError_calls st1 @ [errorMessage] \<rparr>)
         else report_and_stop onError kind ''No speech detected. Please try again.'' st)
      else if kind = ''aborted'' then st\<lparr> isListening := False \<rparr>
      else if kind = ''audio-capture'' then
        report_and_stop onError kind ''No microphone found. Please check your microphone.'' st
      else if kind = ''network'' then
        report_and_stop onError kind
          ''Network error occurred. Please check your internet connection.'' st
      else if kind = ''not-allowed'' then
        report_and_stop onError kind
          ''Microphone permission denied. Please allow microphone access.'' st
      else if kind = ''service-not-allowed'' then
        report_and_stop onError kind
          ''Speech recognition service not allowed. Please check browser settings.'' st
      else report_and_stop onError kind (''Speech recognition error: '' @ kind) st)"

text \<open>A run of error events, oldest first.\<close>

fun onerror_run ::
  "error_callback \<Rightarrow> bool \<Rightarrow> string list \<Rightarrow> recognition \<Rightarrow> recognition" where
  "onerror_run onError continuous [] st = st"
| "onerror_run onError continuous (kind # kinds) st =
     onerror_run onError continuous kinds (onerror onError continuous kind st)"


section \<open>Conversations, messages and their storage\<close>

text \<open>
  A time stamp is kept as the milliseconds it denotes: the source stores
  \<^verbatim>\<open>new Date(ms).toISOString()\<close> and compares \<^verbatim>\<open>new Date(iso).getTime()\<close>, which gives
  \<open>ms\<close> back.
\<close>

datatype message_type = User | Ai

record message =
  msg_id :: string
  msg_conversationId :: string
  msg_type :: message_type
  msg_transcription :: "string option"
  msg_correctedText :: "string option"
  msg_explanation :: "string option"
  msg_aiResponseText :: "string option"
  audioUrl :: "string option"
  userAudioUrl :: "string option"
  msg_createdAt :: int

record conversation =
  conv_id :: string
  userId :: "string option"
  title :: "string option"
  lastMessage :: "string option"
  lastMessageAt :: "int option"
  conv_createdAt :: int
  updatedAt :: int
  messageCount :: "nat option"

text \<open>
  The browser's stores. Local storage holds the conversation list under one key and one
  message list per conversation under a key made of a fixed prefix and the conversation
  identifier; the values are kept as the lists their JSON text denotes, \<open>None\<close> for an
  absent key. The object store of the audio database maps an audio identifier to a blob.
\<close>

record storage =
  conversations_item :: "conversation list option"
  messages_item :: "string \<Rightarrow> message list option"
  audio_files :: "string \<Rightarrow> blob option"

datatype idb_error = IDBRequestFailed

text \<open>
  The three operations on the audio database. Whether the database serves the request
  is an input. \<^verbatim>\<open>saveAudio\<close> and \<^verbatim>\<open>deleteAudio\<close> await the opening of the database
  and the request inside \<^verbatim>\<open>try\<close>, and rethrow either failure. \<^verbatim>\<open>getAudio\<close> awaits
  only the opening: when that fails it answers \<^verbatim>\<open>null\<close>; the promise of the request is
  returned as it is, so a failed request rejects.
\<close>

datatype idb_get = Answered | OpenFailed | RequestFailed

definition saveAudio :: "bool \<Rightarrow> string \<Rightarrow> blob \<Rightarrow> storage \<Rightarrow> idb_error + storage" where
  "saveAudio ok audioId audioBlob s =
     (if ok then Inr (s\<lparr> audio_files := (audio_files s)(audioId \<mapsto> audioBlob) \<rparr>)
      else Inl IDBRequestFailed)"

definition getAudio :: "idb_get \<Rightarrow> string \<Rightarrow> storage \<Rightarrow> idb_error + blob option" where
  "getAudio outcome audioId s =
     (case outcome of
        Answered \<Rightarrow> Inr (audio_files s audioId)
      | OpenFailed \<Rightarrow> Inr None
      | RequestFailed \<Rightarrow> Inl IDBRequestFailed)"

definition deleteAudio :: "bool \<Rightarrow> string \<Rightarrow> storage \<Rightarrow> idb_error + storage" where
  "deleteAudio ok audioId s =
     (if ok then Inr (s\<lparr> audio_files := (audio_files s)(audioId := None) \<rparr>)
      else Inl IDBRequestFailed)"

definition getConversations :: "storage \<Rightarrow> conversation list" where
  "getConversations s = (case conversations_item s of None \<Rightarrow> [] | Some cs \<Rightarrow> cs)"

definition getConversation :: "string \<Rightarrow> storage \<Rightarrow> conversation option" where
  "getConversation cid s = find (\<lambda>c. conv_id c = cid) (getConversations s)"

definition getMessages :: "string \<Rightarrow> storage \<Rightarrow> message list" where
  "getMessages conversationId s =
     (case messages_item s conversationId of None \<Rightarrow> [] | Some ms \<Rightarrow> ms)"

text \<open>\<^verbatim>\<open>xs.findIndex(p)\<close>, with \<open>None\<close> for \<open>-1\<close>.\<close>

fun findIndex :: "('a \<Rightarrow> bool) \<Rightarrow> 'a list \<Rightarrow> nat option" where
  "findIndex P [] = None"
| "findIndex P (x # xs) =
     (if P x then Some 0 else map_option Suc (findIndex P xs))"

text \<open>
  \<^verbatim>\<open>Array.prototype.sort\<close> is stable; with a comparator that subtracts two keys it is the
  stable sort by that key, which \<open>sort_key\<close> is. Most recent first is the stable sort by
  the negated time. A conversation always has its \<open>updatedAt\<close>, so the comparator's
  \<^verbatim>\<open>a.updatedAt || a.createdAt\<close> is \<open>updatedAt\<close>.
\<close>

definition saveConversation :: "conversation \<Rightarrow> storage \<Rightarrow> storage" where
  "saveConversation c s =
     (let conversations = getConversations s;
          conversations1 =
            (case findIndex (\<lambda>x. conv_id x = conv_id c) conversations of
               Some existingIndex \<Rightarrow> conversations[existingIndex := c]
             | None \<Rightarrow> c # conversations)
      in s\<lparr> conversations_item := Some (sort_key (\<lambda>x. - updatedAt x) conversations1) \<rparr>)"

definition audio_key :: "message \<Rightarrow> string" where
  "audio_key m = ''audio_'' @ msg_id m"

text \<open>
  The loop of \<^verbatim>\<open>deleteConversation\<close> over the messages: \<open>served k\<close> tells whether the
  audio database serves the request to delete key \<open>k\<close>; a failed request is logged and
  the loop goes on.
\<close>

fun delete_message_audio :: "(string \<Rightarrow> bool) \<Rightarrow> message list \<Rightarrow> storage \<Rightarrow> storage" where
  "delete_message_audio served [] s = s"
| "delete_message_audio served (m # ms) s =
     delete_message_audio served ms
       (if truthy (userAudioUrl m) then
          (case deleteAudio (served (audio_key m)) (audio_key m) s of
             Inr s' \<Rightarrow> s'
           | Inl _ \<Rightarrow> s)
        else s)"

definition deleteConversation :: "(string \<Rightarrow> bool) \<Rightarrow> string \<Rightarrow> storage \<Rightarrow> storage" where
  "deleteConversation served cid s =
     (let s1 = s\<lparr> conversations_item :=
                   Some (filter (\<lambda>c. conv_id c \<noteq> cid) (getConversations s)) \<rparr>;
          messages = getMessages cid s1;
          s2 = delete_message_audio served messages s1
      in s2\<lparr> messages_item := (messages_item s2)(cid := None) \<rparr>)"

text \<open>
  The update of the message list in \<^verbatim>\<open>saveMessage\<close>: a message whose identifier is
  already there is replaced in place; a new one is appended and the list is sorted by
  creation time.
\<close>

definition save_in_list :: "message list \<Rightarrow> message \<Rightarrow> message list" where
  "save_in_list messages messageToSave =
     (case findIndex (\<lambda>m. msg_id m = msg_id messageToSave) messages of
        Some existingIndex \<Rightarrow> messages[existingIndex := messageToSave]
      | None \<Rightarrow> sort_key msg_createdAt (messages @ [messageToSave]))"

definition startsWith :: "string \<Rightarrow> string \<Rightarrow> bool" where
  "startsWith s p \<longleftrightarrow> take (length p) s = p"

text \<open>
  \<^verbatim>\<open>saveMessage\<close>: \<open>fetched\<close> is the blob behind the message's blob URL (\<open>None\<close> when
  fetching it fails), \<open>save_ok\<close> whether the audio database serves the request to store it.
\<close>

definition saveMessage ::
  "blob option \<Rightarrow> bool \<Rightarrow> string \<Rightarrow> message \<Rightarrow> storage \<Rightarrow> storage" where
  "saveMessage fetched save_ok conversationId msg s =
     (let (messageToSave, s1) =
            (if truthy (userAudioUrl msg) \<and> startsWith (or_else (userAudioUrl msg) []) ''blob:''
                \<and> msg_type msg = User
             then
               (case fetched of
                  None \<Rightarrow> (msg, s)
                | Some b \<Rightarrow>
                    (case saveAudio save_ok (audio_key msg) b s of
                       Inr s' \<Rightarrow> (msg\<lparr> userAudioUrl := Some (audio_key msg) \<rparr>, s')
                     | Inl _ \<Rightarrow> (msg, s)))
             else (msg, s));
          messages = save_in_list (getMessages conversationId s1) messageToSave;
          s2 =
            (case getConversation conversationId s1 of
               None \<Rightarrow> s1
             | Some c \<Rightarrow>
                 let c1 = c\<lparr> lastMessage :=
                               Some (if msg_type messageToSave = User
                                     then (if truthy (msg_transcription messageToSave)
                                           then or_else (msg_transcription messageToSave) []
                                           else or_else (msg_correctedText messageToSave) [])
                                     else or_else (msg_aiResponseText messageToSave) []),
                             lastMessageAt := Some (msg_createdAt messageToSave),
                             updatedAt := msg_createdAt messageToSave,
                             messageCount := Some (length messages) \<rparr>;
                     c2 =
                       (if \<not> truthy (title c1) \<and> msg_type messageToSave = User then
                          (case find (\<lambda>m. msg_type m = User) messages of
                             Some firstUserMessage \<Rightarrow>
                               c1\<lparr> title :=
                                     Some (take 50
                                       (if truthy (msg_transcription firstUserMessage)
                                        then or_else (msg_transcription firstUserMessage) []
                                        else or_else (msg_correctedText firstUserMessage)
                                               ''New Conversation'')) \<rparr>
                           | None \<Rightarrow> c1)
                        else c1)
                 in saveConversation c2 s1)
      in s2\<lparr> messages_item := (messages_item s2)(conversationId \<mapsto> messages) \<rparr>)"

section \<open>One recording turn\<close>

text \<open>Decimal text of a number, as a template literal prints an integer.\<close>

function show_nat :: "nat \<Rightarrow> string" where
  "show_nat n =
     (if n < 10 then [char_of (48 + n)]
      else show_nat (n div 10) @ [char_of (48 + n mod 10)])"
  by pat_completeness auto
termination
  by (relation "measure id") auto

declare show_nat.simps [simp del]

definition show_int :: "int \<Rightarrow> string" where
  "show_int i = (if i < 0 then CHR ''-'' # show_nat (nat (- i)) else show_nat (nat i))"

datatype turn = Ignored | Discarded | Failed string | Delivered message message

text \<open>
  \<^verbatim>\<open>handleStopRecording\<close>, from the state it reads: the two flags, the two transcripts,
  the URL made for the recorded blob (if any), the conversation identifier, what the
  backend answered (\<open>Inl\<close> the message, if any, of the error thrown) and the clock read
  after the answer. \<open>Failed\<close> carries the text of the alert.
  \<open>Delivered u a\<close> stands for the two calls of \<^verbatim>\<open>onMessageSent\<close>.
\<close>

definition handleStopRecording ::
  "bool \<Rightarrow> bool \<Rightarrow> string \<Rightarrow> string \<Rightarrow> string option \<Rightarrow> string option
     \<Rightarrow> string option + message_response \<Rightarrow> int \<Rightarrow> turn" where
  "handleStopRecording recording processing finalTranscript transcript_now userAudio
       conversationId answer now =
     (if \<not> recording \<or> processing then Ignored
      else
        let textToSend = (if finalTranscript \<noteq> [] then finalTranscript else transcript_now)
        in if trim textToSend = [] then Discarded
           else
             (case answer of
                Inl errorMessage \<Rightarrow>
                  Failed (or_else errorMessage
                            ''Failed to process your message. Please try again.'')
              | Inr response \<Rightarrow>
                  Delivered
                    \<lparr> msg_id = ''user_'' @ show_int now,
                      msg_conversationId = or_else conversationId ''temp'',
                      msg_type = User,
                      msg_transcription = Some textToSend,
                      msg_correctedText = Some (correctedText response),
                      msg_explanation = Some (explanation response),
                      msg_aiResponseText = None,
                      audioUrl = None,
                      userAudioUrl = userAudio,
                      msg_createdAt = now \<rparr>
                    \<lparr> msg_id = ''ai_'' @ show_int (now + 1),
                      msg_conversationId = or_else conversationId ''temp'',
                      msg_type = Ai,
                      msg_transcription = None,
                      msg_correctedText = None,
                      msg_explanation = None,
                      msg_aiResponseText = Some (aiResponseText response),
                      audioUrl = None,
                      userAudioUrl = None,
                      msg_createdAt = now + 1 \<rparr>))"

section \<open>Concrete inputs\<close>

definition quota_rejection :: api_error where
  "quota_rejection =
     \<lparr> err_code = Some ''insufficient_quota'', err_status = Some 429,
       err_message = Some ''You exceeded your current quota'' \<rparr>"

definition quota_failure_env :: "int \<Rightarrow> call_env" where
  "quota_failure_env t =
     \<lparr> OPENAI_API_KEY = Some ''sk-test'', now_entry = t, now_catch = t,
       completion = Rejected quota_rejection \<rparr>"

definition empty_reply_env :: call_env where
  "empty_reply_env =
     \<lparr> OPENAI_API_KEY = Some ''sk-test'', now_entry = 0, now_catch = 0,
       completion = Resolved (Some []) \<rparr>"

definition no_json :: "string \<Rightarrow> json_result option" where
  "no_json s = None"

definition recorded_second :: audio_recorder where
  "recorded_second =
     \<lparr> isRecording = True, mediaRecorderRef = True, audioChunksRef = [],
       recordingStartTimeRef = 0, tracks_live = True \<rparr>"

definition silent_recognition :: recognition where
  "silent_recognition =
     \<lparr> isListening = True, transcript = [], error = None, shouldRestartRef = True,
       noSpeechErrorCountRef = 0, onResult_calls = [], onError_calls = [],
       engine_active = True \<rparr>"

text \<open>
  Two result events of one session: a first final segment, then a second one; the
  second event carries both results and points at the new one.
\<close>

definition first_event :: result_event where
  "first_event =
     \<lparr> resultIndex = 0, results = [\<lparr> alternative = ''hello'', isFinal = True \<rparr>] \<rparr>"

definition second_event :: result_event where
  "second_event =
     \<lparr> resultIndex = 1,
       results = [\<lparr> alternative = ''hello'', isFinal = True \<rparr>,
                  \<lparr> alternative = ''world'', isFinal = True \<rparr>] \<rparr>"

text \<open>
  The transcript in the words of the specification: the concatenation of all final
  segments of the session, which are the final results the event lists.
\<close>

definition spec_all_final_segments :: "result_event \<Rightarrow> string" where
  "spec_all_final_segments event =
     trim (concat (map (\<lambda>r. alternative r @ '' '') (filter isFinal (results event))))"

text \<open>A turn, the two messages it delivers, and a storage that holds the first of them.\<close>

definition empty_storage :: storage where
  "empty_storage =
     \<lparr> conversations_item = None, messages_item = (\<lambda>_. None), audio_files = (\<lambda>_. None) \<rparr>"

definition example_response :: message_response where
  "example_response =
     \<lparr> correctedText = ''Hi.'', explanation = ''Added period at the end.'',
       transcription = ''hi'', aiResponseText = ''Hello! How are you today?'',
       aiResponseAudio = [] \<rparr>"

definition example_turn :: turn where
  "example_turn =
     handleStopRecording True False ''hi'' [] (Some ''blob:1'') (Some ''c1'')
       (Inr example_response) 5"

definition example_user_message :: message where
  "example_user_message = (case example_turn of Delivered u a \<Rightarrow> u)"

definition example_ai_message :: message where
  "example_ai_message = (case example_turn of Delivered u a \<Rightarrow> a)"

definition stored_conversation :: storage where
  "stored_conversation =
     \<lparr> conversations_item =
         Some [\<lparr> conv_id = ''c1'', userId = None, title = Some ''hi'', lastMessage = Some ''hi'',
                  lastMessageAt = Some 5, conv_createdAt = 1, updatedAt = 5,
                  messageCount = Some 1 \<rparr>],
       messages_item =
         (\<lambda>_. None)(''c1'' \<mapsto> [example_user_message\<lparr> userAudioUrl := Some ''audio_user_5'' \<rparr>]),
       audio_files = (\<lambda>_. None)(''audio_user_5'' \<mapsto> [1, 2, 3]) \<rparr>"

section \<open>The local corrector on the two examples of the specification\<close>

text \<open>
  Claim C8. On the input \<^verbatim>\<open>i am happy\<close> the local corrector returns the text
  \<^verbatim>\<open>I am happy.\<close>, and its explanation lists the capitalisation of the pronoun and
  the period added at the end, in this order and nothing else.
\<close>

theorem simpleTextCorrection_i_am_happy:
  \<open>simpleTextCorrection ''i am happy'' =
     \<lparr> correctedText = ''I am happy.'',
       explanation = ''Capitalized "I" when referring to yourself. Added period at the end.'' \<rparr>\<close>
  by code_simp

text \<open>
  Claim C9, as stated: on \<^verbatim>\<open>I am fine.\<close> the explanation holds no text beyond
  \<^verbatim>\<open>No obvious errors found.\<close> It does: the message of the corrector for a text it
  leaves alone goes on after that sentence.
\<close>

theorem simpleTextCorrection_i_am_fine_counterexample:
  "explanation (simpleTextCorrection ''I am fine.'') \<noteq> ''No obvious errors found.''"
  by code_simp

text \<open>
  Claim C9, amended: on \<^verbatim>\<open>I am fine.\<close> the corrector returns the text unchanged, and
  the explanation is the whole message for a text without findings,
  \<^verbatim>\<open>No obvious errors found. Great job!\<close>, with no note of a correction.
\<close>

theorem simpleTextCorrection_i_am_fine:
  "simpleTextCorrection ''I am fine.'' =
     \<lparr> correctedText = ''I am fine.'', explanation = ''No obvious errors found. Great job!'' \<rparr>"
  by code_simp

section \<open>The cool-down of the correction step\<close>

text \<open>
  Claim C1. While the cool-down is active, that is, the quota flag is set and less than
  five minutes lie between the recorded quota error and the clock read on entry,
  \<open>correctText\<close> returns what \<open>simpleTextCorrection\<close> returns for the same text, leaves
  the module state alone and does not call the remote model.
\<close>

theorem correctText_cooldown:
  assumes "quotaExceeded st"
    and "now_entry env - lastQuotaErrorTime st < QUOTA_ERROR_COOLDOWN"
  shows "correctText JSON_parse env st text = (simpleTextCorrection text, st, False)"
  using assms by (simp add: correctText_def)

text \<open>
  Claim C1 on a run: a first call at time 1000 meets a quota error, which starts the cool-down;
  a second call 299999 ms later, with a remote model that would fail again, stays local.
\<close>

theorem correctText_cooldown_witness:
  "(let st = fst (snd (correctText no_json (quota_failure_env 1000) initial_llm_state ''i am happy''));
        env = quota_failure_env 300999
    in quotaExceeded st \<and> now_entry env - lastQuotaErrorTime st < QUOTA_ERROR_COOLDOWN \<and>
       correctText no_json env st ''i am happy'' = (simpleTextCorrection ''i am happy'', st, False))"
proof -
  let ?st = "fst (snd (correctText no_json (quota_failure_env 1000) initial_llm_state ''i am happy''))"
  let ?env = "quota_failure_env 300999"
  have q: "quotaExceeded ?st"
    by (simp add: correctText_def quota_failure_env_def initial_llm_state_def truthy_def
        is_quota_error_def quota_rejection_def QUOTA_ERROR_COOLDOWN_def)
  have t: "now_entry ?env - lastQuotaErrorTime ?st < QUOTA_ERROR_COOLDOWN"
    by (simp add: correctText_def quota_failure_env_def initial_llm_state_def truthy_def
        is_quota_error_def quota_rejection_def QUOTA_ERROR_COOLDOWN_def)
  from correctText_cooldown [OF q t, of no_json "''i am happy''"] q t
  show ?thesis by (simp add: Let_def)
qed

section \<open>The acceptance thresholds of audio capture\<close>

text \<open>
  Claim C2. When a capture session is stopped (the recorder ref holds a recorder),
  \<open>stopRecording\<close> resolves to no artifact if less than 500 ms have passed since the
  start or the assembled blob has fewer than 1024 bytes, and to the assembled blob
  otherwise.
\<close>

theorem stopRecording_thresholds:
  assumes "mediaRecorderRef st"
  shows "fst (stopRecording now pending st) =
           (let audioBlob = concat (audioChunksRef (ondataavailable pending st)) in
            if now - recordingStartTimeRef st < 500 \<or> length audioBlob < 1024 then None
            else Some audioBlob)"
  using assms by (simp add: stopRecording_def Let_def MIN_RECORDING_DURATION_def)

text \<open>Claim C2 on a run: one second of 1024 bytes is kept; 499 ms, or 1023 bytes, are not.\<close>

theorem stopRecording_thresholds_witness:
  "mediaRecorderRef recorded_second \<and>
   fst (stopRecording 1000 (replicate 1024 0) recorded_second) = Some (replicate 1024 0) \<and>
   fst (stopRecording 499 (replicate 1024 0) recorded_second) = None \<and>
   fst (stopRecording 1000 (replicate 1023 0) recorded_second) = None"
  using stopRecording_thresholds [of recorded_second 1000 "replicate 1024 0"]
    stopRecording_thresholds [of recorded_second 499 "replicate 1024 0"]
    stopRecording_thresholds [of recorded_second 1000 "replicate 1023 0"]
  by (simp add: recorded_second_def ondataavailable_def)

section \<open>Reply generation\<close>

lemma simple_response_nonempty: "simple_response userText \<noteq> []"
  by (simp add: simple_response_def Let_def)

lemma or_else_nonempty: "d \<noteq> [] \<Longrightarrow> or_else v d \<noteq> []"
  by (cases v) (simp_all add: or_else_def)

text \<open>
  Claim C10, as stated: every outcome of the remote call, an empty model reply among
  them, falls through to the canned responses. An empty reply does not: for the text
  \<^verbatim>\<open>hello\<close> the table answers with its greeting, and \<open>generateResponse\<close> with the
  fixed sentence that stands in for an empty reply.
\<close>

theorem generateResponse_empty_reply_counterexample:
  "fst (generateResponse empty_reply_env initial_llm_state ''hello'') \<noteq> simple_response ''hello''"
  by (simp add: generateResponse_def empty_reply_env_def initial_llm_state_def truthy_def
      or_else_def simple_response_def Let_def toLowerCase_def)

text \<open>
  Claim C10, amended: \<open>generateResponse\<close> is total (it has no error result) and its
  reply is never empty. When the remote model was not called (no API key, or cool-down),
  and when the call failed, the reply is the canned response for the text; when the call
  succeeded, the reply is the model's content, or a fixed sentence if that content is
  null or empty.
\<close>

theorem generateResponse_reply:
  "fst (generateResponse env st userText) \<noteq> [] \<and>
   fst (generateResponse env st userText) =
     (if snd (snd (generateResponse env st userText))
      then (case completion env of
              Resolved content \<Rightarrow> or_else content ''I'm here to help you practice English!''
            | Rejected e \<Rightarrow> simple_response userText)
      else simple_response userText)"
  by (auto simp: generateResponse_def Let_def simple_response_nonempty or_else_nonempty
      split: remote_result.splits)

section \<open>The status of the message route\<close>

text \<open>
  Claim C5, as stated: a quota failure of the upstream model makes the route answer 429.
  With both steps meeting a quota error the answer is 200: each step falls back to its
  local rule.
\<close>

theorem post_message_quota_counterexample:
  "is_quota_error quota_rejection \<and>
   status (fst (post_message no_json (quota_failure_env 1000) (quota_failure_env 1000)
                  initial_llm_state (Text ''hello''))) = 200 \<and>
   status (fst (post_message no_json (quota_failure_env 1000) (quota_failure_env 1000)
                  initial_llm_state (Text ''hello''))) \<noteq> 429"
  by (simp add: post_message_def processTextMessage_def correctText_def generateResponse_def
      quota_failure_env_def initial_llm_state_def truthy_def is_quota_error_def
      quota_rejection_def Let_def trim_def is_space_def charCode_def split: prod.splits)

text \<open>
  Claim C5, amended: the route answers 400 when the text is missing, is not a string, or
  is empty after trimming, and 200 in every other case, whatever the upstream model does
  in either step; \<open>processTextMessage\<close> returns a result for every text and every
  outcome of the remote calls, so the error branch of the route is not taken.
\<close>

theorem post_message_status:
  "status (fst (post_message JSON_parse env1 env2 st req_text)) =
     (case req_text of
        Text t \<Rightarrow> if trim t = [] then 400 else 200
      | _ \<Rightarrow> 400) \<and>
   (\<exists>result. fst (processTextMessage JSON_parse env1 env2 st text) = Inr result)"
  by (cases req_text)
    (auto simp: post_message_def processTextMessage_def Let_def trim_def split: prod.splits)

section \<open>Recognition errors and results\<close>

lemma no_speech_run_state:
  assumes "noSpeechErrorCountRef st = 0"
  shows "k < 5 \<Longrightarrow>
           onerror_run onError True (replicate k ''no-speech'') st =
             st\<lparr> noSpeechErrorCountRef := k \<rparr>"
    and "onerror_run onError True (replicate 5 ''no-speech'') st =
           onError ''No speech detected multiple times. Please speak clearly.''
             (st\<lparr> noSpeechErrorCountRef := 5,
                  error := Some ''No speech detected multiple times. Please speak clearly.'',
                  onError_calls := onError_calls st @
                    [''No speech detected multiple times. Please speak clearly.''] \<rparr>)"
proof -
  show "onerror_run onError True (replicate k ''no-speech'') st =
          st\<lparr> noSpeechErrorCountRef := k \<rparr>"
    if "k < 5"
  proof -
    from that consider "k = 0" | "k = 1" | "k = 2" | "k = 3" | "k = 4" by arith
    then show ?thesis
      using assms by cases (simp_all add: onerror_def Let_def eval_nat_numeral)
  qed
  show "onerror_run onError True (replicate 5 ''no-speech'') st =
           onError ''No speech detected multiple times. Please speak clearly.''
             (st\<lparr> noSpeechErrorCountRef := 5,
                  error := Some ''No speech detected multiple times. Please speak clearly.'',
                  onError_calls := onError_calls st @
                    [''No speech detected multiple times. Please speak clearly.''] \<rparr>)"
    using assms by (simp add: onerror_def Let_def eval_nat_numeral)
qed


text \<open>
  The handler on its own does what its comments say: with a caller that passes no
  callback, the run leaves the restart flag and the engine alone.
\<close>

lemma no_speech_run_without_callback:
  "shouldRestartRef (onerror_run no_callback True (replicate 5 ''no-speech'') silent_recognition) \<and>
   engine_active (onerror_run no_callback True (replicate 5 ''no-speech'') silent_recognition) \<and>
   isListening (onerror_run no_callback True (replicate 5 ''no-speech'') silent_recognition)"
proof -
  have z: "noSpeechErrorCountRef silent_recognition = 0"
    by (simp add: silent_recognition_def)
  show ?thesis
    unfolding no_speech_run_state(2) [OF z, of no_callback]
    by (simp add: no_callback_def silent_recognition_def)
qed

lemma collect_results_eq:
  "collect_results rs (i, f) =
     (i @ concat (map alternative (filter (\<lambda>r. \<not> isFinal r) rs)),
      f @ concat (map (\<lambda>r. alternative r @ '' '') (filter isFinal rs)))"
  by (induction rs arbitrary: i f) auto

text \<open>
  Claim C7, as stated: once a final segment exists, the exposed transcript is the
  concatenation of all final segments of the session. After a second final segment the
  hook exposes that segment alone.
\<close>

theorem onresult_session_counterexample:
  "transcript (onresult second_event (onresult first_event silent_recognition)) = ''world'' \<and>
   spec_all_final_segments second_event = ''hello world'' \<and>
   transcript (onresult second_event (onresult first_event silent_recognition)) \<noteq>
     spec_all_final_segments second_event"
  by (simp add: onresult_def first_event_def second_event_def silent_recognition_def
      spec_all_final_segments_def trim_def is_space_def charCode_def Let_def)

text \<open>
  Claim C7, amended: after a result event the exposed transcript is made of the results
  of that event from its result index on. If a final result is among them, it is the
  trimmed concatenation of those final results, each followed by a space; otherwise it
  is the trimmed concatenation of the interim results among them.
\<close>

theorem onresult_transcript:
  "transcript (onresult event st) =
     (let fresh = drop (resultIndex event) (results event);
          finals = concat (map (\<lambda>r. alternative r @ '' '') (filter isFinal fresh));
          interims = concat (map alternative (filter (\<lambda>r. \<not> isFinal r) fresh))
      in trim (if finals \<noteq> [] then finals else interims))"
  by (simp add: onresult_def collect_results_eq Let_def)

section \<open>The order of the two messages of a turn\<close>

lemma findIndex_None: "findIndex P xs = None \<longleftrightarrow> (\<forall>x\<in>set xs. \<not> P x)"
  by (induction xs) auto

lemma save_in_list_fresh:
  "\<forall>x\<in>set ms. msg_id x \<noteq> msg_id m \<Longrightarrow> save_in_list ms m = sort_key msg_createdAt (ms @ [m])"
proof -
  assume "\<forall>x\<in>set ms. msg_id x \<noteq> msg_id m"
  then have "findIndex (\<lambda>x. msg_id x = msg_id m) ms = None"
    by (simp add: findIndex_None)
  then show ?thesis by (simp add: save_in_list_def)
qed

lemma getMessages_saveAudio:
  "saveAudio ok k b s = Inr s' \<Longrightarrow> getMessages c s' = getMessages c s"
  by (auto simp: saveAudio_def getMessages_def split: if_splits)

lemma getMessages_saveMessage:
  "\<exists>x. getMessages c (saveMessage fetched ok c m s) =
         save_in_list (getMessages c s) (m\<lparr> userAudioUrl := x \<rparr>)"
proof -
  obtain m' s1 where p:
    "(if truthy (userAudioUrl m) \<and> startsWith (or_else (userAudioUrl m) []) ''blob:''
         \<and> msg_type m = User
      then (case fetched of
              None \<Rightarrow> (m, s)
            | Some b \<Rightarrow>
                (case saveAudio ok (audio_key m) b s of
                   Inr s' \<Rightarrow> (m\<lparr> userAudioUrl := Some (audio_key m) \<rparr>, s')
                 | Inl _ \<Rightarrow> (m, s)))
      else (m, s)) = (m', s1)"
    by (cases "(if truthy (userAudioUrl m) \<and> startsWith (or_else (userAudioUrl m) []) ''blob:''
         \<and> msg_type m = User
      then (case fetched of
              None \<Rightarrow> (m, s)
            | Some b \<Rightarrow>
                (case saveAudio ok (audio_key m) b s of
                   Inr s' \<Rightarrow> (m\<lparr> userAudioUrl := Some (audio_key m) \<rparr>, s')
                 | Inl _ \<Rightarrow> (m, s)))
      else (m, s))") blast
  have g: "getMessages c (saveMessage fetched ok c m s) = save_in_list (getMessages c s1) m'"
    unfolding saveMessage_def p by (simp add: Let_def getMessages_def)
  have "(m' = m \<and> s1 = s) \<or>
        (m' = m\<lparr> userAudioUrl := Some (audio_key m) \<rparr> \<and> getMessages c s1 = getMessages c s)"
    using p by (auto split: if_splits option.splits sum.splits dest: getMessages_saveAudio)
  then show ?thesis
  proof
    assume "m' = m \<and> s1 = s"
    then have "getMessages c (saveMessage fetched ok c m s) =
        save_in_list (getMessages c s) (m\<lparr> userAudioUrl := userAudioUrl m \<rparr>)"
      using g by simp
    then show ?thesis by blast
  next
    assume "m' = m\<lparr> userAudioUrl := Some (audio_key m) \<rparr> \<and> getMessages c s1 = getMessages c s"
    then show ?thesis using g by auto
  qed
qed

lemma sorted_positions:
  assumes "sorted (map K xs)" "i < length xs" "j < length xs" "K (xs ! i) < K (xs ! j)"
  shows "i < j"
proof (rule ccontr)
  assume "\<not> i < j"
  then have "j \<le> i" by simp
  with assms(1,2) have "map K xs ! j \<le> map K xs ! i"
    by (simp add: sorted_iff_nth_mono)
  with assms show False by simp
qed


lemma delivered_fields:
  assumes "handleStopRecording recording processing finalTranscript transcript_now userAudio
             conversationId answer now = Delivered u a"
  shows "msg_id u = ''user_'' @ show_int now" "msg_createdAt u = now"
    "msg_id a = ''ai_'' @ show_int (now + 1)" "msg_createdAt a = now + 1"
  using assms
  by (auto simp: handleStopRecording_def Let_def split: if_splits sum.splits)

lemma saved_twice:
  assumes fresh: "\<forall>m\<in>set ms. msg_id m \<noteq> msg_id p \<and> msg_id m \<noteq> msg_id q"
    and distinct: "msg_id p \<noteq> msg_id q"
  shows "sorted (map msg_createdAt (save_in_list (save_in_list ms p) q)) \<and>
         set (save_in_list (save_in_list ms p) q) = set ms \<union> {p, q}"
proof -
  have first: "save_in_list ms p = sort_key msg_createdAt (ms @ [p])"
    using fresh by (simp add: save_in_list_fresh)
  have "\<forall>x\<in>set (save_in_list ms p). msg_id x \<noteq> msg_id q"
    using fresh distinct by (auto simp: first)
  then have "save_in_list (save_in_list ms p) q =
      sort_key msg_createdAt (save_in_list ms p @ [q])"
    by (rule save_in_list_fresh)
  then show ?thesis by (auto simp: first)
qed

text \<open>
  Claim C3. A completed turn delivers a user message stamped with the clock value \<open>now\<close>
  and an AI message stamped \<open>now + 1\<close>. Sorting the two by creation time puts the user
  message first, in whichever order they are given. The same holds in the stored list:
  when \<open>saveMessage\<close> has stored both, in either order, into a conversation that held
  neither identifier, the user message is there, the AI message is there, and every
  position of the former is before every position of the latter.
\<close>

theorem turn_order:
  assumes turn: "handleStopRecording recording processing finalTranscript transcript_now
                   userAudio conversationId answer now = Delivered u a"
    and fresh: "\<forall>m\<in>set (getMessages c s). msg_id m \<noteq> msg_id u \<and> msg_id m \<noteq> msg_id a"
    and saved: "s' = saveMessage f2 ok2 c a (saveMessage f1 ok1 c u s) \<or>
                s' = saveMessage f1 ok1 c u (saveMessage f2 ok2 c a s)"
  shows "msg_createdAt u = now \<and> msg_createdAt a = now + 1 \<and>
         sort_key msg_createdAt [a, u] = [u, a] \<and>
         sort_key msg_createdAt [u, a] = [u, a] \<and>
         (\<exists>i j. i < j \<and> j < length (getMessages c s') \<and>
            msg_id (getMessages c s' ! i) = msg_id u \<and>
            msg_id (getMessages c s' ! j) = msg_id a) \<and>
         (\<forall>i j. i < length (getMessages c s') \<and> j < length (getMessages c s') \<and>
            msg_id (getMessages c s' ! i) = msg_id u \<and>
            msg_id (getMessages c s' ! j) = msg_id a \<longrightarrow> i < j)"
proof -
  let ?ms = "getMessages c s'"
  note f = delivered_fields [OF turn]
  have ids: "msg_id u \<noteq> msg_id a" by (simp add: f)
  have "\<exists>x y. sorted (map msg_createdAt ?ms) \<and>
          set ?ms = set (getMessages c s) \<union> {u\<lparr> userAudioUrl := x \<rparr>, a\<lparr> userAudioUrl := y \<rparr>}"
    using saved
  proof
    assume s': "s' = saveMessage f2 ok2 c a (saveMessage f1 ok1 c u s)"
    obtain x where 1: "getMessages c (saveMessage f1 ok1 c u s) =
        save_in_list (getMessages c s) (u\<lparr> userAudioUrl := x \<rparr>)"
      using getMessages_saveMessage by blast
    obtain y where 2: "?ms = save_in_list (getMessages c (saveMessage f1 ok1 c u s))
        (a\<lparr> userAudioUrl := y \<rparr>)"
      unfolding s' using getMessages_saveMessage by blast
    have "sorted (map msg_createdAt ?ms) \<and>
        set ?ms = set (getMessages c s) \<union> {u\<lparr> userAudioUrl := x \<rparr>, a\<lparr> userAudioUrl := y \<rparr>}"
      unfolding 2 1 by (rule saved_twice) (use fresh ids in auto)
    then show ?thesis by blast
  next
    assume s': "s' = saveMessage f1 ok1 c u (saveMessage f2 ok2 c a s)"
    obtain y where 1: "getMessages c (saveMessage f2 ok2 c a s) =
        save_in_list (getMessages c s) (a\<lparr> userAudioUrl := y \<rparr>)"
      using getMessages_saveMessage by blast
    obtain x where 2: "?ms = save_in_list (getMessages c (saveMessage f2 ok2 c a s))
        (u\<lparr> userAudioUrl := x \<rparr>)"
      unfolding s' using getMessages_saveMessage by blast
    have "sorted (map msg_createdAt ?ms) \<and>
        set ?ms = set (getMessages c s) \<union> {a\<lparr> userAudioUrl := y \<rparr>, u\<lparr> userAudioUrl := x \<rparr>}"
      unfolding 2 1 by (rule saved_twice) (use fresh ids in auto)
    then show ?thesis by (metis insert_commute)
  qed
  then obtain x y where srt: "sorted (map msg_createdAt ?ms)"
    and elems: "set ?ms = set (getMessages c s) \<union>
                  {u\<lparr> userAudioUrl := x \<rparr>, a\<lparr> userAudioUrl := y \<rparr>}"
    by blast
  have time_u: "msg_createdAt m = now" if "m \<in> set ?ms" "msg_id m = msg_id u" for m
    using that fresh ids elems f(2) by auto
  have time_a: "msg_createdAt m = now + 1" if "m \<in> set ?ms" "msg_id m = msg_id a" for m
    using that fresh ids elems f(4) by auto
  have order: "i < j"
    if "i < length ?ms" "j < length ?ms" "msg_id (?ms ! i) = msg_id u"
      "msg_id (?ms ! j) = msg_id a" for i j
  proof -
    have "msg_createdAt (?ms ! i) = now" using that by (simp add: time_u)
    moreover have "msg_createdAt (?ms ! j) = now + 1" using that by (simp add: time_a)
    ultimately show ?thesis using sorted_positions [OF srt that(1,2)] by simp
  qed
  have "u\<lparr> userAudioUrl := x \<rparr> \<in> set ?ms" using elems by simp
  then obtain i where i: "i < length ?ms" "?ms ! i = u\<lparr> userAudioUrl := x \<rparr>"
    by (auto simp: in_set_conv_nth)
  have "a\<lparr> userAudioUrl := y \<rparr> \<in> set ?ms" using elems by simp
  then obtain j where j: "j < length ?ms" "?ms ! j = a\<lparr> userAudioUrl := y \<rparr>"
    by (auto simp: in_set_conv_nth)
  have "i < j" using i j by (simp add: order)
  then have ex: "\<exists>i j. i < j \<and> j < length ?ms \<and> msg_id (?ms ! i) = msg_id u \<and>
      msg_id (?ms ! j) = msg_id a"
    using i j by (intro exI [of _ i] exI [of _ j]) simp
  have two: "sort_key msg_createdAt [a, u] = [u, a]" "sort_key msg_createdAt [u, a] = [u, a]"
    by (simp_all add: f)
  show ?thesis using f(2,4) two ex order by blast
qed


lemma example_turn_delivered:
  "example_turn = Delivered example_user_message example_ai_message"
  by (simp add: example_user_message_def example_ai_message_def example_turn_def
      handleStopRecording_def trim_def is_space_def charCode_def Let_def)

text \<open>
  Claim C3 on a turn at clock value 5 into an empty storage, the AI message stored first.
\<close>

theorem turn_order_witness:
  "handleStopRecording True False ''hi'' [] (Some ''blob:1'') (Some ''c1'')
     (Inr example_response) 5 = Delivered example_user_message example_ai_message \<and>
   getMessages ''c1'' empty_storage = [] \<and>
   msg_createdAt example_user_message = 5 \<and>
   msg_createdAt example_ai_message = 6 \<and>
   (\<exists>i j. i < j \<and>
      j < length (getMessages ''c1''
            (saveMessage (Some [1, 2, 3]) True ''c1'' example_user_message
              (saveMessage None True ''c1'' example_ai_message empty_storage))) \<and>
      msg_id (getMessages ''c1''
            (saveMessage (Some [1, 2, 3]) True ''c1'' example_user_message
              (saveMessage None True ''c1'' example_ai_message empty_storage)) ! i) =
        msg_id example_user_message \<and>
      msg_id (getMessages ''c1''
            (saveMessage (Some [1, 2, 3]) True ''c1'' example_user_message
              (saveMessage None True ''c1'' example_ai_message empty_storage)) ! j) =
        msg_id example_ai_message)"
proof -
  have t: "handleStopRecording True False ''hi'' [] (Some ''blob:1'') (Some ''c1'')
     (Inr example_response) 5 = Delivered example_user_message example_ai_message"
    using example_turn_delivered by (simp add: example_turn_def)
  have e: "getMessages ''c1'' empty_storage = []"
    by (simp add: getMessages_def empty_storage_def)
  have fr: "\<forall>m\<in>set (getMessages ''c1'' empty_storage).
      msg_id m \<noteq> msg_id example_user_message \<and> msg_id m \<noteq> msg_id example_ai_message"
    by (simp add: e)
  from turn_order [OF t fr, of
      "saveMessage (Some [1, 2, 3]) True ''c1'' example_user_message
         (saveMessage None True ''c1'' example_ai_message empty_storage)"
      None True "Some [1, 2, 3]" True] t e
  show ?thesis by simp
qed

section \<open>Deleting a conversation\<close>

lemma delete_message_audio_items:
  "conversations_item (delete_message_audio served ms s) = conversations_item s \<and>
   messages_item (delete_message_audio served ms s) = messages_item s"
  by (induction ms arbitrary: s) (auto simp: deleteAudio_def)

lemma delete_message_audio_absent:
  "audio_files s k = None \<Longrightarrow> audio_files (delete_message_audio served ms s) k = None"
  by (induction ms arbitrary: s) (auto simp: deleteAudio_def)

lemma delete_message_audio_deleted:
  "m \<in> set ms \<Longrightarrow> truthy (userAudioUrl m) \<Longrightarrow> served (audio_key m) \<Longrightarrow>
   audio_files (delete_message_audio served ms s) (audio_key m) = None"
proof (induction ms arbitrary: s)
  case Nil
  then show ?case by simp
next
  case (Cons x xs)
  show ?case
  proof (cases "x = m")
    case True
    with Cons.prems show ?thesis
      by (simp add: deleteAudio_def delete_message_audio_absent)
  next
    case False
    with Cons.prems have "m \<in> set xs" by simp
    from Cons.IH [OF this Cons.prems(2,3)] show ?thesis by simp
  qed
qed

text \<open>
  Claim C4, as stated: after \<open>deleteConversation\<close>, looking up the audio key of any
  message of the conversation finds nothing. When the audio database fails the delete
  request, the source logs the failure and goes on: the conversation and its message
  list are gone, and the audio object is still found.
\<close>

theorem deleteConversation_failed_delete_counterexample:
  "map audio_key (filter (\<lambda>m. truthy (userAudioUrl m)) (getMessages ''c1'' stored_conversation)) =
     [''audio_user_5''] \<and>
   getConversation ''c1'' (deleteConversation (\<lambda>k. False) ''c1'' stored_conversation) = None \<and>
   getMessages ''c1'' (deleteConversation (\<lambda>k. False) ''c1'' stored_conversation) = [] \<and>
   getAudio Answered ''audio_user_5''
     (deleteConversation (\<lambda>k. False) ''c1'' stored_conversation) = Inr (Some [1, 2, 3])"
proof -
  have "show_int 5 = ''5''" by code_simp
  moreover have "msg_id example_user_message = ''user_'' @ show_int 5"
    using example_turn_delivered
    by (intro delivered_fields(1) [where now = 5]) (simp add: example_turn_def)
  ultimately have k: "audio_key (example_user_message\<lparr> userAudioUrl := Some ''audio_user_5'' \<rparr>) =
      ''audio_user_5''"
    by (simp add: audio_key_def)
  have ms: "getMessages ''c1'' stored_conversation =
      [example_user_message\<lparr> userAudioUrl := Some ''audio_user_5'' \<rparr>]"
    by (simp add: getMessages_def stored_conversation_def)
  have 1: "map audio_key (filter (\<lambda>m. truthy (userAudioUrl m))
      (getMessages ''c1'' stored_conversation)) = [''audio_user_5'']"
    by (simp add: ms k truthy_def)
  have 2: "getConversation ''c1'' (deleteConversation (\<lambda>k. False) ''c1'' stored_conversation) = None"
    by (simp add: getConversation_def getConversations_def deleteConversation_def Let_def
        delete_message_audio_items stored_conversation_def)
  have 3: "getMessages ''c1'' (deleteConversation (\<lambda>k. False) ''c1'' stored_conversation) = []"
    by (simp add: getMessages_def deleteConversation_def Let_def)
  have 4: "getAudio Answered ''audio_user_5''
     (deleteConversation (\<lambda>k. False) ''c1'' stored_conversation) = Inr (Some [1, 2, 3])"
    by (simp add: getAudio_def deleteConversation_def Let_def getMessages_def
        stored_conversation_def truthy_def deleteAudio_def)
  from 1 2 3 4 show ?thesis by simp
qed

text \<open>
  Claim C4, amended. After \<open>deleteConversation\<close> the conversation is no longer in the
  conversation list (\<open>getConversation\<close> answers \<^verbatim>\<open>null\<close>) and its message list is
  empty, in every case. For every message of the conversation that referenced an audio
  object and whose delete request the audio database served, a later lookup of the key
  \<^verbatim>\<open>audio_<messageId>\<close> answers not-found, whether the database answers the lookup or
  cannot be opened.
\<close>

theorem deleteConversation_cascade:
  "getConversation cid (deleteConversation served cid s) = None \<and>
   getMessages cid (deleteConversation served cid s) = [] \<and>
   (\<forall>m\<in>set (getMessages cid s).
      truthy (userAudioUrl m) \<and> served (audio_key m) \<longrightarrow>
      getAudio Answered (audio_key m) (deleteConversation served cid s) = Inr None \<and>
      getAudio OpenFailed (audio_key m) (deleteConversation served cid s) = Inr None)"
proof -
  have conv: "getConversation cid (deleteConversation served cid s) = None"
    by (simp add: getConversation_def getConversations_def deleteConversation_def Let_def
        delete_message_audio_items find_None_iff)
  have msgs: "getMessages cid (deleteConversation served cid s) = []"
    by (simp add: getMessages_def deleteConversation_def Let_def)
  have audio: "getAudio Answered (audio_key m) (deleteConversation served cid s) = Inr None \<and>
      getAudio OpenFailed (audio_key m) (deleteConversation served cid s) = Inr None"
    if m: "m \<in> set (getMessages cid s)"
      and a: "truthy (userAudioUrl m) \<and> served (audio_key m)" for m
  proof -
    let ?s1 = "s\<lparr> conversations_item :=
                   Some (filter (\<lambda>c. conv_id c \<noteq> cid) (getConversations s)) \<rparr>"
    have "getMessages cid ?s1 = getMessages cid s" by (simp add: getMessages_def)
    with m have "m \<in> set (getMessages cid ?s1)" by simp
    then have "audio_files (delete_message_audio served (getMessages cid ?s1) ?s1)
        (audio_key m) = None"
      using a by (simp add: delete_message_audio_deleted)
    then show ?thesis
      by (simp add: getAudio_def deleteConversation_def Let_def)
  qed
  from conv msgs audio show ?thesis by blast
qed

text \<open>
  Claim C4 on a conversation with one user message and its recorded audio, and a database
  that serves every request.
\<close>

theorem deleteConversation_cascade_witness:
  "getConversation ''c1'' stored_conversation \<noteq> None \<and>
   getMessages ''c1'' stored_conversation =
     [example_user_message\<lparr> userAudioUrl := Some ''audio_user_5'' \<rparr>] \<and>
   audio_key (example_user_message\<lparr> userAudioUrl := Some ''audio_user_5'' \<rparr>) = ''audio_user_5'' \<and>
   getAudio Answered ''audio_user_5'' stored_conversation = Inr (Some [1, 2, 3]) \<and>
   getConversation ''c1'' (deleteConversation (\<lambda>k. True) ''c1'' stored_conversation) = None \<and>
   getMessages ''c1'' (deleteConversation (\<lambda>k. True) ''c1'' stored_conversation) = [] \<and>
   getAudio Answered ''audio_user_5''
     (deleteConversation (\<lambda>k. True) ''c1'' stored_conversation) = Inr None"
proof -
  have ms: "getMessages ''c1'' stored_conversation =
      [example_user_message\<lparr> userAudioUrl := Some ''audio_user_5'' \<rparr>]"
    by (simp add: getMessages_def stored_conversation_def)
  have k: "audio_key (example_user_message\<lparr> userAudioUrl := Some ''audio_user_5'' \<rparr>) =
      ''audio_user_5''"
  proof -
    have "show_int 5 = ''5''" by code_simp
    moreover have "msg_id example_user_message = ''user_'' @ show_int 5"
      using example_turn_delivered
      by (intro delivered_fields(1) [where now = 5]) (simp add: example_turn_def)
    ultimately show ?thesis by (simp add: audio_key_def)
  qed
  have c: "getConversation ''c1'' stored_conversation \<noteq> None"
    by (simp add: getConversation_def getConversations_def stored_conversation_def)
  have g: "getAudio Answered ''audio_user_5'' stored_conversation = Inr (Some [1, 2, 3])"
    by (simp add: getAudio_def stored_conversation_def)
  from deleteConversation_cascade [of "''c1''" "\<lambda>k. True" stored_conversation] ms k c g
  show ?thesis by (simp add: truthy_def)
qed

end
